theory Spec2Isabelle
  imports Main
begin

section \<open>The local marketplace backend: data\<close>

text \<open>
  A shallow embedding of \<^verbatim>\<open>LocalMarketplaceOperatorBackend\<close>
  (\<^verbatim>\<open>src/ads/opctl/backend/marketplace/local_marketplace.py\<close>).
  Every method becomes a function that takes the outside world's answers (\<open>env\<close>) and
  the observable state (\<open>world\<close>) and returns its result with the new state. A raised
  exception is an \<open>Inl\<close>; Python's \<^verbatim>\<open>None\<close> is \<open>None\<close>; a call that never returns
  has no result at all (\<open>None\<close> of the outer option). Leading underscores of method
  names are dropped.

  Left out, since no result depends on them: the calls to \<^verbatim>\<open>print\<close>, the two
  assignments to \<^verbatim>\<open>os.environ\<close>, the loading of the kube config, the content written
  to the values file, and the text of the confirmation prompt. The constructors and
  loaders of other modules that a run calls before it does anything
  (\<^verbatim>\<open>MarketplacePythonRuntime.from_dict\<close>, \<^verbatim>\<open>MarketplaceBackendRunner\<close>,
  \<^verbatim>\<open>OperatorLoader\<close>) are taken to return. Flag values are strings, so \<^verbatim>\<open>f"{value}"\<close> is
  the value itself.
\<close>

datatype py_error =
    Exception
  | IndexError
  | TypeError
  | KeyError
  | RuntimeError
  | EmptyDataError
  | ParserError
  | FileNotFoundError
  | ApiException

text \<open>A bare \<^verbatim>\<open>raise Exception\<close> carries no class of its own and no message.\<close>

definition is_distinguished_error :: "py_error \<Rightarrow> bool" where
  "is_distinguished_error err = (err \<noteq> Exception)"

record completed_process =
  returncode :: int
  stdout :: string

text \<open>
  A cell of a pandas frame after type inference: text, a number, a boolean or a
  missing value. A frame maps a column name to its cells.
\<close>

datatype cell = Str string | Num int | Bool bool | NaN

type_synonym dataframe = "string \<rightharpoonup> cell list"

record condition =
  ctype :: string
  cstatus :: string

record pod =
  conditions :: "condition list option"

record marketplace_listing_details =
  compartment_id :: string
  version :: string
  listing_id :: string

record helm_marketplace_listing_details = marketplace_listing_details +
  helm_values :: "(string \<times> string) list"
  helm_app_name :: string
  namespace :: string

datatype listing =
    Helm helm_marketplace_listing_details
  | Plain marketplace_listing_details

record accepted_agreement_summary =
  accepted_agreement_id :: string

record agreement_summary =
  summary_id :: string
  author :: string

record agreement =
  content_url :: string
  prompt :: string
  signature :: string

record create_accepted_agreement_details =
  d_agreement_id :: string
  d_listing_id :: string
  d_compartment_id :: string
  d_signature :: string
  d_package_version :: string

text \<open>What the backend does to the outside world, in the order it does it.\<close>

datatype event =
    Spawn "string list"
  | WriteFile string
  | RemoveFile string
  | Fetch string string
  | Sleep nat
  | GetAgreement string
  | OpenBrowser string
  | Confirm string
  | CreateAcceptedAgreement create_accepted_agreement_details

record world =
  trace :: "event list"
  files :: "string set"
  clock :: nat

text \<open>
  The answers of the collaborators: the child processes (by argument vector), the
  part of \<^verbatim>\<open>pandas.read_csv\<close> that is not modelled, the name of the fresh temporary
  directory, the cluster's answer to the fetch of each tick with the time the fetch
  took, the marketplace service, the user's answer at the confirmation prompt of each
  agreement (by agreement id), the listing details the operator's runner returns, and
  the two runtime type constants of \<^verbatim>\<open>ads.opctl.operator.runtime\<close>.
\<close>

record env =
  subprocess_run :: "string list \<Rightarrow> py_error + completed_process"
  parse_table :: "string \<Rightarrow> py_error + dataframe"
  temporary_directory :: string
  list_namespaced_pod :: "nat \<Rightarrow> nat \<times> (py_error + pod list)"
  list_accepted_agreements :: "accepted_agreement_summary list"
  list_agreements :: "agreement_summary list"
  get_agreement :: "string \<Rightarrow> agreement"
  click_confirm :: "string \<Rightarrow> bool"
  get_listing_details :: listing
  python_runtime_type :: string
  default_runtime_type :: string

definition log :: "event list \<Rightarrow> world \<Rightarrow> world" where
  "log evs w = w\<lparr>trace := trace w @ evs\<rparr>"

section \<open>Command runner and existence probe\<close>

text \<open>
  \<^verbatim>\<open>for key, value in kwargs.items(): flags.extend([f"--{key}", f"{value}"])\<close>
\<close>

fun flags_loop :: "string list \<Rightarrow> (string \<times> string) list \<Rightarrow> string list" where
  "flags_loop flags [] = flags"
| "flags_loop flags ((key, val) # kwargs) = flags_loop (flags @ [''--'' @ key, val]) kwargs"

definition helm_list_cmd :: "(string \<times> string) list \<Rightarrow> string list" where
  "helm_list_cmd kwargs = [''helm'', ''list''] @ flags_loop [] kwargs"

definition helm_install_cmd ::
  "string \<Rightarrow> string \<Rightarrow> string \<Rightarrow> (string \<times> string) list \<Rightarrow> string list" where
  "helm_install_cmd installation_type name chart kwargs =
     [''helm'', installation_type, name, chart] @ flags_loop [] kwargs"

text \<open>
  \<^verbatim>\<open>pandas.read_csv\<close> raises \<^verbatim>\<open>EmptyDataError\<close> on input with no bytes; every other
  input is left to \<open>parse_table\<close>.
\<close>

definition read_csv :: "env \<Rightarrow> string \<Rightarrow> py_error + dataframe" where
  "read_csv e bytes = (if bytes = [] then Inl EmptyDataError else parse_table e bytes)"

definition run_helm_list ::
  "env \<Rightarrow> (string \<times> string) list \<Rightarrow> world \<Rightarrow> (py_error + dataframe option) \<times> world" where
  "run_helm_list e kwargs w =
     (let helm_cmd = helm_list_cmd kwargs;
          w' = log [Spawn helm_cmd] w
      in case subprocess_run e helm_cmd of
           Inl err \<Rightarrow> (Inl err, w')
         | Inr result \<Rightarrow>
             if returncode result = 0
             then (case read_csv e (stdout result) of
                     Inl err \<Rightarrow> (Inl err, w')
                   | Inr output \<Rightarrow> (Inr (Some output), w'))
             else (Inr None, w'))"

text \<open>\<^verbatim>\<open>(helm_list['NAME'] == name).any()\<close>: a cell equals a string only if it is that text.\<close>

fun cell_eq :: "cell \<Rightarrow> string \<Rightarrow> bool" where
  "cell_eq (Str s) name = (s = name)"
| "cell_eq (Num n) name = False"
| "cell_eq (Bool b) name = False"
| "cell_eq NaN name = False"

definition series_eq_any :: "cell list \<Rightarrow> string \<Rightarrow> bool" where
  "series_eq_any col name = list_ex (\<lambda>c. cell_eq c name) col"

definition check_if_chart_already_exist ::
  "env \<Rightarrow> string \<Rightarrow> (string \<times> string) list \<Rightarrow> world \<Rightarrow> (py_error + bool) \<times> world" where
  "check_if_chart_already_exist e name kwargs w =
     (case map_of kwargs ''namespace'' of
        None \<Rightarrow> (Inl KeyError, w)
      | Some ns \<Rightarrow>
          (case run_helm_list e [(''namespace'', ns)] w of
             (Inl err, w') \<Rightarrow> (Inl err, w')
           | (Inr None, w') \<Rightarrow> (Inl TypeError, w')
           | (Inr (Some helm_list), w') \<Rightarrow>
               (case helm_list ''NAME'' of
                  None \<Rightarrow> (Inl KeyError, w')
                | Some col \<Rightarrow> (Inr (series_eq_any col name), w'))))"

definition run_helm_install ::
  "env \<Rightarrow> string \<Rightarrow> string \<Rightarrow> (string \<times> string) list \<Rightarrow> world
     \<Rightarrow> (py_error + completed_process) \<times> world" where
  "run_helm_install e name chart kwargs w =
     (case check_if_chart_already_exist e name kwargs w of
        (Inl err, w') \<Rightarrow> (Inl err, w')
      | (Inr exist, w') \<Rightarrow>
          (let installation_type = (if \<not> exist then ''install'' else ''upgrade'');
               helm_cmd = helm_install_cmd installation_type name chart kwargs;
               w'' = log [Spawn helm_cmd] w'
           in case subprocess_run e helm_cmd of
                Inl err \<Rightarrow> (Inl err, w'')
              | Inr result \<Rightarrow> (Inr result, w'')))"

definition save_helm_value_to_yaml ::
  "env \<Rightarrow> (string \<times> string) list \<Rightarrow> world \<Rightarrow> string \<times> world" where
  "save_helm_value_to_yaml e values w =
     (let override_value_path = temporary_directory e @ ''/values.yaml''
      in (override_value_path,
          (log [WriteFile override_value_path] w)
            \<lparr>files := insert override_value_path (files w)\<rparr>))"

definition delete_temp_file :: "string \<Rightarrow> world \<Rightarrow> bool \<times> world" where
  "delete_temp_file temp_file w =
     (if temp_file \<in> files w
      then (True, (log [RemoveFile temp_file] w)\<lparr>files := files w - {temp_file}\<rparr>)
      else (False, w))"

section \<open>Readiness poller\<close>

fun is_pod_ready_loop :: "condition list \<Rightarrow> bool" where
  "is_pod_ready_loop [] = False"
| "is_pod_ready_loop (c # cs) =
     (if ctype c = ''Ready'' then cstatus c = ''True'' else is_pod_ready_loop cs)"

text \<open>Iterating over \<^verbatim>\<open>pod.status.conditions\<close> raises when the field is \<^verbatim>\<open>None\<close>.\<close>

definition is_pod_ready :: "pod \<Rightarrow> py_error + bool" where
  "is_pod_ready p =
     (case conditions p of
        None \<Rightarrow> Inl TypeError
      | Some cs \<Rightarrow> Inr (is_pod_ready_loop cs))"

text \<open>
  The \<^verbatim>\<open>while True\<close> loop. The clock is read in whole seconds; it moves by the time
  a fetch takes and by the sleep. A loop that never leaves has the value \<open>None\<close>.
\<close>

definition fetched :: "env \<Rightarrow> string \<Rightarrow> string \<Rightarrow> nat \<Rightarrow> world \<Rightarrow> world" where
  "fetched e ns pod_name tick w =
     (log [Fetch ns (''app.kubernetes.io/instance='' @ pod_name)] w)
       \<lparr>clock := clock w + fst (list_namespaced_pod e tick)\<rparr>"

definition slept :: "nat \<Rightarrow> world \<Rightarrow> world" where
  "slept sleep_time w = (log [Sleep sleep_time] w)\<lparr>clock := clock w + sleep_time\<rparr>"

partial_function (option) wait_loop ::
  "env \<Rightarrow> string \<Rightarrow> string \<Rightarrow> nat \<Rightarrow> nat \<Rightarrow> nat \<Rightarrow> nat \<Rightarrow> world
     \<Rightarrow> ((py_error + int) \<times> world) option" where
  "wait_loop e ns pod_name start_time timeout_seconds sleep_time tick w =
     (case snd (list_namespaced_pod e tick) of
        Inl err \<Rightarrow> Some (Inl err, fetched e ns pod_name tick w)
      | Inr items \<Rightarrow>
          (case items of
             [] \<Rightarrow> Some (Inl IndexError, fetched e ns pod_name tick w)
           | p # _ \<Rightarrow>
               (case is_pod_ready p of
                  Inl err \<Rightarrow> Some (Inl err, fetched e ns pod_name tick w)
                | Inr ready \<Rightarrow>
                    if ready then Some (Inr 0, fetched e ns pod_name tick w)
                    else if clock (fetched e ns pod_name tick w) - start_time \<ge> timeout_seconds
                    then Some (Inr (- 1), fetched e ns pod_name tick w)
                    else wait_loop e ns pod_name start_time timeout_seconds sleep_time
                           (Suc tick) (slept sleep_time (fetched e ns pod_name tick w)))))"

declare wait_loop.simps [code]

definition wait_for_pod_ready ::
  "env \<Rightarrow> string \<Rightarrow> string \<Rightarrow> world \<Rightarrow> ((py_error + int) \<times> world) option" where
  "wait_for_pod_ready e ns pod_name w =
     (let start_time = clock w;
          timeout_seconds = 10 * 60;
          sleep_time = 20
      in wait_loop e ns pod_name start_time timeout_seconds sleep_time 0 w)"

section \<open>Agreement gate\<close>

text \<open>
  The loop over \<^verbatim>\<open>agreement_summaries\<close>. The list of accepted ids is built once, before
  the loop, and is not extended by the loop.
\<close>

fun agreements_loop ::
  "env \<Rightarrow> 'a marketplace_listing_details_scheme \<Rightarrow> string list \<Rightarrow> agreement_summary list
     \<Rightarrow> world \<Rightarrow> (py_error + unit) \<times> world" where
  "agreements_loop e listing_details accepted_agreement_ids [] w = (Inr (), w)"
| "agreements_loop e listing_details accepted_agreement_ids (agreement_summary # rest) w =
     (if summary_id agreement_summary \<notin> set accepted_agreement_ids
      then
        (let agreement = get_agreement e (summary_id agreement_summary);
             w1 = slept 2 (log [GetAgreement (summary_id agreement_summary),
                                OpenBrowser (content_url agreement)] w);
             answer = click_confirm e (summary_id agreement_summary);
             w2 = log [Confirm (summary_id agreement_summary)] w1
         in if \<not> answer then (Inl Exception, w2)
            else agreements_loop e listing_details accepted_agreement_ids rest
                   (log [CreateAcceptedAgreement
                           \<lparr>d_agreement_id = summary_id agreement_summary,
                            d_listing_id = listing_id listing_details,
                            d_compartment_id = compartment_id listing_details,
                            d_signature = signature agreement,
                            d_package_version = version listing_details\<rparr>] w2))
      else agreements_loop e listing_details accepted_agreement_ids rest w)"

definition check_prerequisites ::
  "env \<Rightarrow> 'a marketplace_listing_details_scheme \<Rightarrow> world \<Rightarrow> (py_error + unit) \<times> world" where
  "check_prerequisites e listing_details w =
     (let accepted_agreement_ids = map accepted_agreement_id (list_accepted_agreements e)
      in agreements_loop e listing_details accepted_agreement_ids (list_agreements e) w)"

section \<open>Orchestrator\<close>

definition chart_ref :: string where
  "chart_ref = ''oci://iad.ocir.io/idogsu2ylimg/feature-store-data-plane-api-helidon/feature-store-dp-api''"

text \<open>
  \<^verbatim>\<open>_run_with_python\<close>. The call \<^verbatim>\<open># self.check_prerequisites(listing_details)\<close> is a
  comment in the source, so the model makes no such call. A listing that is not a
  Helm listing falls off the end of the method, which returns \<^verbatim>\<open>None\<close>.
\<close>

definition run_with_python :: "env \<Rightarrow> world \<Rightarrow> ((py_error + int option) \<times> world) option" where
  "run_with_python e w =
     (case get_listing_details e of
        Helm listing_details \<Rightarrow>
          (case save_helm_value_to_yaml e (helm_values listing_details) w of
             (override_value_path, w1) \<Rightarrow>
               (case run_helm_install e (helm_app_name listing_details) chart_ref
                       [(''version'', ''1.0.0''),
                        (''namespace'', namespace listing_details),
                        (''values'', override_value_path)] w1 of
                  (Inl err, w2) \<Rightarrow> Some (Inl err, w2)
                | (Inr helm_install_status, w2) \<Rightarrow>
                    (case delete_temp_file override_value_path w2 of
                       (_, w3) \<Rightarrow>
                         if returncode helm_install_status = 0
                         then (case wait_for_pod_ready e (namespace listing_details)
                                      (helm_app_name listing_details) w3 of
                                 None \<Rightarrow> None
                               | Some (Inl err, w4) \<Rightarrow> Some (Inl err, w4)
                               | Some (Inr code, w4) \<Rightarrow> Some (Inr (Some code), w4))
                         else Some (Inr (Some (- 1)), w3))))
      | Plain listing_details \<Rightarrow> Some (Inr None, w))"

text \<open>\<^verbatim>\<open>self._RUNTIME_RUN_MAP\<close>: one runtime type, one function.\<close>

definition RUNTIME_RUN_MAP ::
  "env \<Rightarrow> string \<rightharpoonup> (world \<Rightarrow> ((py_error + int option) \<times> world) option)" where
  "RUNTIME_RUN_MAP e = [python_runtime_type e \<mapsto> run_with_python e]"

definition run ::
  "env \<Rightarrow> (string \<rightharpoonup> string) \<Rightarrow> world \<Rightarrow> ((py_error + unit) \<times> world) option" where
  "run e runtime_config w =
     (let runtime_type =
            (case runtime_config ''type'' of None \<Rightarrow> default_runtime_type e | Some t \<Rightarrow> t)
      in if runtime_type \<notin> dom (RUNTIME_RUN_MAP e) then Some (Inl RuntimeError, w)
         else
           (case (case RUNTIME_RUN_MAP e runtime_type of
                    None \<Rightarrow> Some (Inr None, w)
                  | Some f \<Rightarrow> f w) of
              None \<Rightarrow> None
            | Some (Inl err, w') \<Rightarrow> Some (Inl err, w')
            | Some (Inr exit_code, w') \<Rightarrow>
                if exit_code \<noteq> Some 0 then Some (Inl RuntimeError, w')
                else Some (Inr (), w')))"

section \<open>Observations and example runs\<close>

text \<open>Counting the calls of one kind in a trace.\<close>

fun is_fetch :: "event \<Rightarrow> bool" where
  "is_fetch (Fetch ns selector) = True"
| "is_fetch ev = False"

definition fetch_calls :: "world \<Rightarrow> nat" where
  "fetch_calls w = length (filter is_fetch (trace w))"

fun is_install :: "event \<Rightarrow> bool" where
  "is_install (Spawn argv) =
     (case argv of
        exe # verb # rest \<Rightarrow> exe = ''helm'' \<and> (verb = ''install'' \<or> verb = ''upgrade'')
      | _ \<Rightarrow> False)"
| "is_install ev = False"

definition install_calls :: "world \<Rightarrow> nat" where
  "install_calls w = length (filter is_install (trace w))"

fun confirmations :: "event list \<Rightarrow> string list" where
  "confirmations [] = []"
| "confirmations (Confirm i # evs) = i # confirmations evs"
| "confirmations (ev # evs) = confirmations evs"

fun recordings :: "event list \<Rightarrow> string list" where
  "recordings [] = []"
| "recordings (CreateAcceptedAgreement d # evs) = d_agreement_id d # recordings evs"
| "recordings (ev # evs) = recordings evs"

text \<open>
  What \<^verbatim>\<open>helm list\<close> prints: tab-separated columns under a header line. The frames
  are what \<^verbatim>\<open>pandas.read_csv\<close> makes of that output, column by column: a column
  whose cells all read as integers is a column of numbers.
\<close>

definition helm_header :: string where
  "helm_header =
     ''NAME'' @ [CHR 0x09] @ ''NAMESPACE'' @ [CHR 0x09] @ ''REVISION'' @ [CHR 0x09] @
     ''UPDATED'' @ [CHR 0x09] @ ''STATUS'' @ [CHR 0x09] @ ''CHART'' @ [CHR 0x09] @
     ''APP VERSION'' @ [CHR 0x0A]"

definition helm_row :: "string \<Rightarrow> string" where
  "helm_row name =
     name @ [CHR 0x09] @ ''ns1'' @ [CHR 0x09] @ ''1'' @ [CHR 0x09] @
     ''2023-10-05 12:00:00.000000 +0000 UTC'' @ [CHR 0x09] @ ''deployed'' @ [CHR 0x09] @
     ''feature-store-dp-api-1.0.0'' @ [CHR 0x09] @ ''1.0.0'' @ [CHR 0x0A]"

definition empty_frame :: dataframe where
  "empty_frame =
     [''NAME'' \<mapsto> [], ''NAMESPACE'' \<mapsto> [], ''REVISION'' \<mapsto> [], ''UPDATED'' \<mapsto> [],
      ''STATUS'' \<mapsto> [], ''CHART'' \<mapsto> [], ''APP VERSION'' \<mapsto> []]"

definition one_row_frame :: "cell \<Rightarrow> dataframe" where
  "one_row_frame name_cell =
     [''NAME'' \<mapsto> [name_cell], ''NAMESPACE'' \<mapsto> [Str ''ns1''], ''REVISION'' \<mapsto> [Num 1],
      ''UPDATED'' \<mapsto> [Str ''2023-10-05 12:00:00.000000 +0000 UTC''],
      ''STATUS'' \<mapsto> [Str ''deployed''], ''CHART'' \<mapsto> [Str ''feature-store-dp-api-1.0.0''],
      ''APP VERSION'' \<mapsto> [Str ''1.0.0'']]"

text \<open>
  A healthy deployment of release \<open>demo\<close> into namespace \<open>ns1\<close>: every child process
  exits 0, the listing is a header with no rows, the pod is ready on the first tick,
  no agreement is required. The other examples change one answer each.
\<close>

definition demo_listing :: helm_marketplace_listing_details where
  "demo_listing =
     \<lparr>compartment_id = ''c1'', version = ''1.0.0'', listing_id = ''l1'',
      helm_values = [], helm_app_name = ''demo'', namespace = ''ns1''\<rparr>"

definition ready_pod :: pod where
  "ready_pod =
     \<lparr>conditions = Some [\<lparr>ctype = ''PodScheduled'', cstatus = ''True''\<rparr>,
                         \<lparr>ctype = ''Ready'', cstatus = ''True''\<rparr>]\<rparr>"

definition pending_pod :: pod where
  "pending_pod =
     \<lparr>conditions = Some [\<lparr>ctype = ''PodScheduled'', cstatus = ''True''\<rparr>,
                         \<lparr>ctype = ''Ready'', cstatus = ''False''\<rparr>]\<rparr>"

definition demo_env :: env where
  "demo_env =
     \<lparr>subprocess_run = (\<lambda>argv. Inr \<lparr>returncode = 0, stdout = helm_header\<rparr>),
      parse_table = (\<lambda>bytes. if bytes = helm_header then Inr empty_frame else Inl ParserError),
      temporary_directory = ''/tmp/tmpabc'',
      list_namespaced_pod = (\<lambda>tick. (0, Inr [ready_pod])),
      list_accepted_agreements = [],
      list_agreements = [],
      get_agreement = (\<lambda>i. \<lparr>content_url = ''https://terms/'' @ i, prompt = ''Accept?'',
                              signature = ''sig-'' @ i\<rparr>),
      click_confirm = (\<lambda>i. False),
      get_listing_details = Helm demo_listing,
      python_runtime_type = ''python'',
      default_runtime_type = ''python''\<rparr>"

definition world0 :: world where
  "world0 = \<lparr>trace = [], files = {}, clock = 0\<rparr>"

definition declining_env :: env where
  "declining_env = demo_env\<lparr>list_agreements := [\<lparr>summary_id = ''a1'', author = ''vendor''\<rparr>]\<rparr>"

definition empty_stdout_env :: env where
  "empty_stdout_env =
     demo_env\<lparr>subprocess_run := (\<lambda>argv. Inr \<lparr>returncode = 0, stdout = ''''\<rparr>)\<rparr>"

definition listed_env :: env where
  "listed_env =
     demo_env\<lparr>subprocess_run :=
                (\<lambda>argv. Inr \<lparr>returncode = 0, stdout = helm_header @ helm_row ''demo''\<rparr>),
              parse_table :=
                (\<lambda>bytes. if bytes = helm_header @ helm_row ''demo''
                         then Inr (one_row_frame (Str ''demo'')) else Inl ParserError)\<rparr>"

definition numeric_name_env :: env where
  "numeric_name_env =
     demo_env\<lparr>subprocess_run :=
                (\<lambda>argv. Inr \<lparr>returncode = 0, stdout = helm_header @ helm_row ''123''\<rparr>),
              parse_table :=
                (\<lambda>bytes. if bytes = helm_header @ helm_row ''123''
                         then Inr (one_row_frame (Num 123)) else Inl ParserError)\<rparr>"

definition unscheduled_env :: env where
  "unscheduled_env = demo_env\<lparr>list_namespaced_pod := (\<lambda>tick. (0, Inr []))\<rparr>"

definition list_fails_env :: env where
  "list_fails_env =
     demo_env\<lparr>subprocess_run := (\<lambda>argv. Inr \<lparr>returncode = 1, stdout = ''''\<rparr>)\<rparr>"

definition install_fails_env :: env where
  "install_fails_env =
     demo_env\<lparr>subprocess_run :=
       (\<lambda>argv. if take 2 argv = [''helm'', ''list'']
               then Inr \<lparr>returncode = 0, stdout = helm_header\<rparr>
               else Inr \<lparr>returncode = 1, stdout = ''''\<rparr>)\<rparr>"

definition slow_env :: env where
  "slow_env = demo_env\<lparr>list_namespaced_pod := (\<lambda>tick. (700, Inr [pending_pod]))\<rparr>"

definition never_ready_env :: env where
  "never_ready_env = demo_env\<lparr>list_namespaced_pod := (\<lambda>tick. (0, Inr [pending_pod]))\<rparr>"

definition agreements_env :: env where
  "agreements_env =
     demo_env\<lparr>list_accepted_agreements := [\<lparr>accepted_agreement_id = ''a1''\<rparr>],
              list_agreements := [\<lparr>summary_id = ''a1'', author = ''vendor''\<rparr>,
                                  \<lparr>summary_id = ''a2'', author = ''vendor''\<rparr>,
                                  \<lparr>summary_id = ''a3'', author = ''vendor''\<rparr>,
                                  \<lparr>summary_id = ''a4'', author = ''vendor''\<rparr>],
              click_confirm := (\<lambda>i. i = ''a2'')\<rparr>"

definition covered_env :: env where
  "covered_env =
     demo_env\<lparr>list_accepted_agreements := [\<lparr>accepted_agreement_id = ''a1''\<rparr>,
                                           \<lparr>accepted_agreement_id = ''a2''\<rparr>],
              list_agreements := [\<lparr>summary_id = ''a1'', author = ''vendor''\<rparr>,
                                  \<lparr>summary_id = ''a2'', author = ''vendor''\<rparr>]\<rparr>"

definition plain_env :: env where
  "plain_env =
     demo_env\<lparr>get_listing_details :=
       Plain \<lparr>compartment_id = ''c1'', version = ''1.0.0'', listing_id = ''l1''\<rparr>\<rparr>"

text \<open>
  The agreement gate as the specification words it: the required agreements that are
  not in the accepted set, the ones among them the user confirms before the first
  refusal, the first one the user refuses, and the ones the gate asks about.
\<close>

definition unaccepted :: "env \<Rightarrow> agreement_summary list" where
  "unaccepted e =
     filter (\<lambda>s. summary_id s \<notin> set (map accepted_agreement_id (list_accepted_agreements e)))
       (list_agreements e)"

definition confirmed_prefix :: "env \<Rightarrow> agreement_summary list \<Rightarrow> agreement_summary list" where
  "confirmed_prefix e pending = takeWhile (\<lambda>s. click_confirm e (summary_id s)) pending"

definition first_declined :: "env \<Rightarrow> agreement_summary list \<Rightarrow> agreement_summary option" where
  "first_declined e pending = find (\<lambda>s. \<not> click_confirm e (summary_id s)) pending"

definition asked :: "env \<Rightarrow> agreement_summary list \<Rightarrow> agreement_summary list" where
  "asked e pending =
     confirmed_prefix e pending @
     (case first_declined e pending of None \<Rightarrow> [] | Some s \<Rightarrow> [s])"

section \<open>Helper facts\<close>

lemma flags_loop_concat:
  "flags_loop flags kwargs = flags @ concat (map (\<lambda>(key, val). [''--'' @ key, val]) kwargs)"
  by (induction flags kwargs rule: flags_loop.induct) simp_all

lemma trace_log [simp]: "trace (log evs w) = trace w @ evs"
  by (simp add: log_def)

lemma files_log [simp]: "files (log evs w) = files w"
  by (simp add: log_def)

lemma clock_log [simp]: "clock (log evs w) = clock w"
  by (simp add: log_def)

lemma trace_run_helm_list:
  "trace (snd (run_helm_list e kwargs w)) = trace w @ [Spawn (helm_list_cmd kwargs)]"
  by (simp add: run_helm_list_def Let_def split: sum.splits)

lemma confirmations_append: "confirmations (xs @ ys) = confirmations xs @ confirmations ys"
  by (induction xs rule: confirmations.induct) simp_all

lemma recordings_append: "recordings (xs @ ys) = recordings xs @ recordings ys"
  by (induction xs rule: recordings.induct) simp_all

lemma trace_slept [simp]: "trace (slept n w) = trace w @ [Sleep n]"
  by (simp add: slept_def)

lemma clock_slept [simp]: "clock (slept n w) = clock w + n"
  by (simp add: slept_def)

lemma trace_fetched [simp]:
  "trace (fetched e ns pod_name tick w) = trace w @ [Fetch ns (''app.kubernetes.io/instance='' @ pod_name)]"
  by (simp add: fetched_def)

lemma clock_fetched [simp]:
  "clock (fetched e ns pod_name tick w) = clock w + fst (list_namespaced_pod e tick)"
  by (simp add: fetched_def)

lemma fetch_calls_fetched [simp]: "fetch_calls (fetched e ns pod_name tick w) = Suc (fetch_calls w)"
  by (simp add: fetch_calls_def)

lemma fetch_calls_slept [simp]: "fetch_calls (slept n w) = fetch_calls w"
  by (simp add: fetch_calls_def)

lemma agreements_loop_confirmations:
  "confirmations (trace (snd (agreements_loop e ld acc summaries w))) =
     confirmations (trace w) @
     map summary_id (asked e (filter (\<lambda>s. summary_id s \<notin> set acc) summaries))"
  by (induction summaries arbitrary: w)
     (simp_all add: Let_def asked_def confirmed_prefix_def first_declined_def
        confirmations_append)

lemma agreements_loop_recordings:
  "recordings (trace (snd (agreements_loop e ld acc summaries w))) =
     recordings (trace w) @
     map summary_id (confirmed_prefix e (filter (\<lambda>s. summary_id s \<notin> set acc) summaries))"
  by (induction summaries arbitrary: w)
     (simp_all add: Let_def confirmed_prefix_def recordings_append)

lemma agreements_loop_result:
  "fst (agreements_loop e ld acc summaries w) =
     (case first_declined e (filter (\<lambda>s. summary_id s \<notin> set acc) summaries) of
        None \<Rightarrow> Inr () | Some s \<Rightarrow> Inl Exception)"
  by (induction summaries arbitrary: w)
     (simp_all add: Let_def first_declined_def)

lemma agreements_loop_last:
  "first_declined e (filter (\<lambda>s. summary_id s \<notin> set acc) summaries) = Some s \<Longrightarrow>
   last (trace (snd (agreements_loop e ld acc summaries w))) = Confirm (summary_id s)"
  by (induction summaries arbitrary: w)
     (auto simp: Let_def first_declined_def)

lemma agreements_loop_covered:
  "set (map summary_id summaries) \<subseteq> set acc \<Longrightarrow> agreements_loop e ld acc summaries w = (Inr (), w)"
  by (induction summaries arbitrary: w) auto

lemma first_declined_declines:
  "first_declined e pending = Some s \<Longrightarrow> \<not> click_confirm e (summary_id s)"
  unfolding first_declined_def by (induction pending) (auto split: if_splits)

lemma confirmed_prefix_confirms:
  "x \<in> set (confirmed_prefix e pending) \<Longrightarrow> click_confirm e (summary_id x)"
  by (auto simp: confirmed_prefix_def dest: set_takeWhileD)

lemma count_confirmed_prefix:
  "first_declined e pending = Some s \<Longrightarrow>
   count_list (map summary_id (confirmed_prefix e pending)) (summary_id s) = 0"
  using first_declined_declines [of e pending s] confirmed_prefix_confirms [of _ e pending]
  by (auto simp: count_list_0_iff)

lemma snd_run_helm_list:
  "snd (run_helm_list e kwargs w) = log [Spawn (helm_list_cmd kwargs)] w"
  by (simp add: run_helm_list_def Let_def split: sum.splits)

lemma snd_check_if_chart_already_exist:
  "snd (check_if_chart_already_exist e name kwargs w) =
     (case map_of kwargs ''namespace'' of
        None \<Rightarrow> w
      | Some ns \<Rightarrow> log [Spawn [''helm'', ''list'', ''--namespace'', ns]] w)"
proof (cases "map_of kwargs ''namespace''")
  case None
  then show ?thesis by (simp add: check_if_chart_already_exist_def)
next
  case (Some ns)
  obtain r w' where l: "run_helm_list e [(''namespace'', ns)] w = (r, w')"
    by (cases "run_helm_list e [(''namespace'', ns)] w")
  with snd_run_helm_list [of e "[(''namespace'', ns)]" w]
  have "w' = log [Spawn [''helm'', ''list'', ''--namespace'', ns]] w"
    by (simp add: helm_list_cmd_def)
  with Some l show ?thesis
    by (simp add: check_if_chart_already_exist_def split: sum.splits option.splits)
qed

lemma snd_run_helm_install:
  "snd (run_helm_install e name chart kwargs w) =
     (case fst (check_if_chart_already_exist e name kwargs w) of
        Inl err \<Rightarrow> snd (check_if_chart_already_exist e name kwargs w)
      | Inr exist \<Rightarrow>
          log [Spawn (helm_install_cmd (if exist then ''upgrade'' else ''install'') name chart kwargs)]
            (snd (check_if_chart_already_exist e name kwargs w)))"
  by (cases "check_if_chart_already_exist e name kwargs w")
     (auto simp: run_helm_install_def Let_def split: sum.splits)

lemma fetch_calls_log_Spawn [simp]: "fetch_calls (log [Spawn argv] w) = fetch_calls w"
  by (simp add: fetch_calls_def)

lemma run_helm_install_quiet:
  "fetch_calls (snd (run_helm_install e name chart kwargs w)) = fetch_calls w
   \<and> clock (snd (run_helm_install e name chart kwargs w)) = clock w"
  by (simp add: snd_run_helm_install snd_check_if_chart_already_exist
        split: sum.splits option.splits)

lemma delete_temp_file_quiet:
  "fetch_calls (snd (delete_temp_file p w)) = fetch_calls w
   \<and> clock (snd (delete_temp_file p w)) = clock w
   \<and> p \<notin> files (snd (delete_temp_file p w))"
  by (simp add: delete_temp_file_def fetch_calls_def)

lemma save_helm_value_to_yaml_quiet:
  "fetch_calls (snd (save_helm_value_to_yaml e vs w)) = fetch_calls w
   \<and> clock (snd (save_helm_value_to_yaml e vs w)) = clock w
   \<and> fst (save_helm_value_to_yaml e vs w) = temporary_directory e @ ''/values.yaml''"
  by (simp add: save_helm_value_to_yaml_def fetch_calls_def Let_def)

lemma wait_loop_returns:
  assumes "0 < sleep_time"
  shows "start \<le> clock w \<Longrightarrow> tick * sleep_time \<le> clock w - start \<Longrightarrow>
     clock w - start < timeout_seconds + sleep_time \<Longrightarrow>
     \<exists>r w' k. wait_loop e ns pod_name start timeout_seconds sleep_time tick w = Some (r, w')
       \<and> (r = Inr 0 \<or> r = Inr (- 1) \<or> isl r)
       \<and> tick \<le> k
       \<and> fetch_calls w' = fetch_calls w + (Suc k - tick)
       \<and> k * sleep_time < timeout_seconds + sleep_time
       \<and> clock w' < start + timeout_seconds + sleep_time + fst (list_namespaced_pod e k)"
proof (induction "timeout_seconds + start - clock w" arbitrary: tick w rule: less_induct)
  case less
  let ?w1 = "fetched e ns pod_name tick w"
  let ?loop = "wait_loop e ns pod_name start timeout_seconds sleep_time"
  have c1: "clock ?w1 = clock w + fst (list_namespaced_pod e tick)"
    by simp
  have f1: "fetch_calls ?w1 = Suc (fetch_calls w)"
    by simp
  have bound: "clock ?w1 < start + timeout_seconds + sleep_time + fst (list_namespaced_pod e tick)"
    using less.prems c1 by linarith
  have ticks: "tick * sleep_time < timeout_seconds + sleep_time"
    using less.prems by linarith
  have stop: "\<exists>r' w' k. Some (r, ?w1) = Some (r', w')
       \<and> (r' = Inr 0 \<or> r' = Inr (- 1) \<or> isl r')
       \<and> tick \<le> k
       \<and> fetch_calls w' = fetch_calls w + (Suc k - tick)
       \<and> k * sleep_time < timeout_seconds + sleep_time
       \<and> clock w' < start + timeout_seconds + sleep_time + fst (list_namespaced_pod e k)"
    if "r = Inr 0 \<or> r = Inr (- 1) \<or> isl r" for r :: "py_error + int"
    using that bound ticks f1 by (intro exI [of _ r] exI [of _ ?w1] exI [of _ tick]) simp
  show ?case
  proof (cases "snd (list_namespaced_pod e tick)")
    case (Inl err)
    then have "?loop tick w = Some (Inl err, ?w1)"
      by (subst wait_loop.simps) simp
    with stop [of "Inl err"] show ?thesis by simp
  next
    case (Inr items)
    show ?thesis
    proof (cases items)
      case Nil
      with Inr have "?loop tick w = Some (Inl IndexError, ?w1)"
        by (subst wait_loop.simps) simp
      with stop [of "Inl IndexError"] show ?thesis by simp
    next
      case (Cons p rest)
      show ?thesis
      proof (cases "is_pod_ready p")
        case (Inl err)
        with Inr Cons have "?loop tick w = Some (Inl err, ?w1)"
          by (subst wait_loop.simps) simp
        with stop [of "Inl err"] show ?thesis by simp
      next
        case ready: (Inr ready)
        show ?thesis
        proof (cases ready)
          case True
          with Inr Cons ready have "?loop tick w = Some (Inr 0, ?w1)"
            by (subst wait_loop.simps) simp
          with stop [of "Inr 0"] show ?thesis by simp
        next
          case False
          show ?thesis
          proof (cases "timeout_seconds \<le> clock ?w1 - start")
            case True
            with Inr Cons ready False have "?loop tick w = Some (Inr (- 1), ?w1)"
              by (subst wait_loop.simps) simp
            with stop [of "Inr (- 1)"] show ?thesis by simp
          next
            case going: False
            let ?w2 = "slept sleep_time ?w1"
            have step: "?loop tick w = ?loop (Suc tick) ?w2"
              using Inr Cons ready False going
              by (subst wait_loop.simps) simp
            have c2: "clock ?w2 = clock w + fst (list_namespaced_pod e tick) + sleep_time"
              by simp
            have m: "timeout_seconds + start - clock ?w2 < timeout_seconds + start - clock w"
              using going assms less.prems c1 c2 by linarith
            have p1: "start \<le> clock ?w2"
              using less.prems c2 by linarith
            have p2: "Suc tick * sleep_time \<le> clock ?w2 - start"
              using less.prems c2 by simp
            have p3: "clock ?w2 - start < timeout_seconds + sleep_time"
              using going less.prems c1 c2 by linarith
            from less.hyps [OF m p1 p2 p3]
            obtain r w' k where k: "?loop (Suc tick) ?w2 = Some (r, w')"
              "r = Inr 0 \<or> r = Inr (- 1) \<or> isl r" "Suc tick \<le> k"
              "fetch_calls w' = fetch_calls ?w2 + (Suc k - Suc tick)"
              "k * sleep_time < timeout_seconds + sleep_time"
              "clock w' < start + timeout_seconds + sleep_time + fst (list_namespaced_pod e k)"
              by blast
            have "fetch_calls w' = fetch_calls w + (Suc k - tick)"
              using k(3,4) by simp
            with step k show ?thesis
              by (intro exI [of _ r] exI [of _ w'] exI [of _ k]) simp
          qed
        qed
      qed
    qed
  qed
qed

section \<open>Properties of the command runner\<close>

text \<open>
  Claim C9. The command runner builds the argument vector in the given order: the
  executable, the verb and the targets first, then for each flag/value pair in
  sequence the flag prefixed with \<open>--\<close>, immediately followed by its value. This holds
  of the vector of the install/upgrade command, of the vector of the listing command,
  and of the child processes \<^verbatim>\<open>_run_helm_install\<close> spawns: the listing scoped to the
  namespace, then (if the existence probe returned) the install or upgrade.
\<close>

theorem argument_vector_in_order:
  "helm_install_cmd installation_type name chart kwargs =
     [''helm'', installation_type, name, chart]
       @ concat (map (\<lambda>(key, val). [''--'' @ key, val]) kwargs)
   \<and> helm_list_cmd kwargs =
     [''helm'', ''list''] @ concat (map (\<lambda>(key, val). [''--'' @ key, val]) kwargs)
   \<and> trace (snd (run_helm_install e name chart kwargs w)) =
     trace w @
       (case map_of kwargs ''namespace'' of
          None \<Rightarrow> []
        | Some ns \<Rightarrow>
            Spawn [''helm'', ''list'', ''--namespace'', ns] #
            (case fst (check_if_chart_already_exist e name kwargs w) of
               Inl err \<Rightarrow> []
             | Inr exist \<Rightarrow>
                 [Spawn ([''helm'', if exist then ''upgrade'' else ''install'', name, chart]
                    @ concat (map (\<lambda>(key, val). [''--'' @ key, val]) kwargs))]))"
proof (intro conjI)
  show "helm_install_cmd installation_type name chart kwargs =
     [''helm'', installation_type, name, chart]
       @ concat (map (\<lambda>(key, val). [''--'' @ key, val]) kwargs)"
    by (simp add: helm_install_cmd_def flags_loop_concat)
  show "helm_list_cmd kwargs =
     [''helm'', ''list''] @ concat (map (\<lambda>(key, val). [''--'' @ key, val]) kwargs)"
    by (simp add: helm_list_cmd_def flags_loop_concat)
  have l: "trace (snd (run_helm_list e [(''namespace'', ns)] w))
      = trace w @ [Spawn [''helm'', ''list'', ''--namespace'', ns]]" for ns
    by (simp add: trace_run_helm_list helm_list_cmd_def)
  have c: "map_of kwargs ''namespace'' = Some ns \<Longrightarrow>
      trace (snd (check_if_chart_already_exist e name kwargs w))
      = trace w @ [Spawn [''helm'', ''list'', ''--namespace'', ns]]" for ns
    using l [of ns]
    by (auto simp: check_if_chart_already_exist_def split: prod.splits sum.splits option.splits)
  show "trace (snd (run_helm_install e name chart kwargs w)) =
     trace w @
       (case map_of kwargs ''namespace'' of
          None \<Rightarrow> []
        | Some ns \<Rightarrow>
            Spawn [''helm'', ''list'', ''--namespace'', ns] #
            (case fst (check_if_chart_already_exist e name kwargs w) of
               Inl err \<Rightarrow> []
             | Inr exist \<Rightarrow>
                 [Spawn ([''helm'', if exist then ''upgrade'' else ''install'', name, chart]
                    @ concat (map (\<lambda>(key, val). [''--'' @ key, val]) kwargs))]))"
  proof (cases "map_of kwargs ''namespace''")
    case None
    then show ?thesis
      by (simp add: run_helm_install_def check_if_chart_already_exist_def)
  next
    case (Some ns)
    show ?thesis
      using c [OF Some] Some
      by (cases "check_if_chart_already_exist e name kwargs w")
         (auto simp: run_helm_install_def Let_def helm_install_cmd_def flags_loop_concat
               split: sum.splits)
  qed
qed

section \<open>Properties of the existence probe\<close>

text \<open>
  Claim C2 says that the probe returns true if and only if some row of the listing's
  name column is exactly the queried name, and false, not an error, on an empty
  listing. On a header with no rows the probe returns false, and a listed release
  \<open>demo\<close> is found under that name and not under \<open>Demo\<close>. But the comparison
  \<^verbatim>\<open>helm_list['NAME'] == name\<close> is made on the cells \<^verbatim>\<open>pandas.read_csv\<close> has inferred:
  in a namespace whose one release is named \<open>123\<close> the name column is a column of
  numbers, no number equals the string \<open>123\<close>, the probe returns false for a release
  that is listed, and \<^verbatim>\<open>_run_helm_install\<close> spawns \<open>helm install\<close> where it should
  upgrade. And when the listing command exits 0 and prints no bytes at all,
  \<^verbatim>\<open>read_csv\<close> raises \<^verbatim>\<open>EmptyDataError\<close> and the probe raises with it.
\<close>

theorem listed_release_reported_absent:
  "fst (check_if_chart_already_exist demo_env ''demo'' [(''namespace'', ''ns1'')] world0)
     = Inr False
   \<and> fst (check_if_chart_already_exist listed_env ''demo'' [(''namespace'', ''ns1'')] world0)
     = Inr True
   \<and> fst (check_if_chart_already_exist listed_env ''Demo'' [(''namespace'', ''ns1'')] world0)
     = Inr False
   \<and> fst (check_if_chart_already_exist numeric_name_env ''123'' [(''namespace'', ''ns1'')] world0)
     = Inr False
   \<and> trace (snd (run_helm_install numeric_name_env ''123'' chart_ref
                     [(''namespace'', ''ns1'')] world0))
     = [Spawn [''helm'', ''list'', ''--namespace'', ''ns1''],
        Spawn [''helm'', ''install'', ''123'', chart_ref, ''--namespace'', ''ns1'']]
   \<and> fst (check_if_chart_already_exist empty_stdout_env ''demo'' [(''namespace'', ''ns1'')] world0)
     = Inl EmptyDataError"
  by code_simp

section \<open>Properties of the readiness poller\<close>

text \<open>
  Claim C3 says that a tick on which no workload instance matches the selector is
  treated as not yet ready. The source takes \<^verbatim>\<open>.items[0]\<close> of the fetched list without
  a check: on an empty list the first tick raises \<^verbatim>\<open>IndexError\<close> and the poller
  ends there, after one fetch and no sleep.
\<close>

theorem empty_pod_list_raises:
  "wait_for_pod_ready unscheduled_env ''ns1'' ''demo'' world0 =
     Some (Inl IndexError,
           \<lparr>trace = [Fetch ''ns1'' ''app.kubernetes.io/instance=demo''], files = {}, clock = 0\<rparr>)"
  by code_simp

text \<open>
  Claim C6, as stated, fails: the bound counts wall-clock time, and the time a fetch
  takes is not bounded by anything in the source. With the source's timeout of 600
  seconds and interval of 20, a first fetch that takes 700 seconds and finds the pod
  not ready makes the poller return \<open>-1\<close> after 700 seconds, more than 620.
\<close>

theorem slow_fetch_exceeds_bound:
  "wait_for_pod_ready slow_env ''ns1'' ''demo'' world0 =
     Some (Inr (- 1),
           \<lparr>trace = [Fetch ''ns1'' ''app.kubernetes.io/instance=demo''], files = {}, clock = 700\<rparr>)
   \<and> \<not> (700 \<le> 600 + (20::nat))"
  by code_simp

text \<open>
  Claim C6, amended. For every timeout and every interval greater than 0 the poller
  terminates, returning 0, returning \<open>-1\<close> or raising. If its last fetch is the one
  of tick \<open>k\<close>, it has made \<open>k + 1\<close> fetches, the \<open>k\<close> sleeps before it took less than
  timeout + interval, and the time elapsed at its return is less than timeout +
  interval plus the time that last fetch took; so with fetches that take no time the
  elapsed time is less than timeout + interval. \<^verbatim>\<open>_wait_for_pod_ready\<close> is the loop with
  timeout 600 and interval 20, started at tick 0.
\<close>

theorem poller_terminates_within_bound:
  assumes "0 < sleep_time"
  shows "wait_for_pod_ready e ns pod_name w = wait_loop e ns pod_name (clock w) 600 20 0 w
    \<and> (\<exists>r w' k. wait_loop e ns pod_name (clock w) timeout_seconds sleep_time 0 w = Some (r, w')
       \<and> (r = Inr 0 \<or> r = Inr (- 1) \<or> isl r)
       \<and> fetch_calls w' = fetch_calls w + Suc k
       \<and> k * sleep_time < timeout_seconds + sleep_time
       \<and> clock w' - clock w < timeout_seconds + sleep_time + fst (list_namespaced_pod e k))"
proof
  show "wait_for_pod_ready e ns pod_name w = wait_loop e ns pod_name (clock w) 600 20 0 w"
    by (simp add: wait_for_pod_ready_def)
next
  from wait_loop_returns [OF assms, of "clock w" w 0 timeout_seconds e ns pod_name] assms
  obtain r w' k where k: "wait_loop e ns pod_name (clock w) timeout_seconds sleep_time 0 w = Some (r, w')"
    "r = Inr 0 \<or> r = Inr (- 1) \<or> isl r"
    "fetch_calls w' = fetch_calls w + (Suc k - 0)"
    "k * sleep_time < timeout_seconds + sleep_time"
    "clock w' < clock w + timeout_seconds + sleep_time + fst (list_namespaced_pod e k)"
    by auto
  then show "\<exists>r w' k. wait_loop e ns pod_name (clock w) timeout_seconds sleep_time 0 w = Some (r, w')
       \<and> (r = Inr 0 \<or> r = Inr (- 1) \<or> isl r)
       \<and> fetch_calls w' = fetch_calls w + Suc k
       \<and> k * sleep_time < timeout_seconds + sleep_time
       \<and> clock w' - clock w < timeout_seconds + sleep_time + fst (list_namespaced_pod e k)"
    by (intro exI [of _ r] exI [of _ w'] exI [of _ k]) auto
qed

theorem poller_terminates_within_bound_witness:
  "(0::nat) < 20
   \<and> (\<exists>r w' k. wait_for_pod_ready never_ready_env ''ns1'' ''demo'' world0 = Some (r, w')
       \<and> (r = Inr 0 \<or> r = Inr (- 1) \<or> isl r)
       \<and> fetch_calls w' = fetch_calls world0 + Suc k
       \<and> k * 20 < 600 + 20
       \<and> clock w' - clock world0 < 600 + 20 + fst (list_namespaced_pod never_ready_env k))"
  using poller_terminates_within_bound [of 20 never_ready_env "''ns1''" "''demo''" world0 600]
  by (simp add: wait_for_pod_ready_def)

section \<open>Properties of the agreement gate\<close>

text \<open>
  Claim C7. The gate asks for a confirmation exactly for the unaccepted required
  agreements, in order, up to and including the first one the user declines; it
  issues a recording call exactly for the ones confirmed before that; it fails if and
  only if one is declined; with every required agreement already accepted it does
  nothing at all; and with no refusal every unaccepted agreement is asked about and
  recorded once. The statement is about the list the service returns, entry by
  entry.
\<close>

theorem agreement_gate_interactions:
  "confirmations (trace (snd (check_prerequisites e ld w))) =
     confirmations (trace w) @ map summary_id (asked e (unaccepted e))
   \<and> recordings (trace (snd (check_prerequisites e ld w))) =
     recordings (trace w) @ map summary_id (confirmed_prefix e (unaccepted e))
   \<and> fst (check_prerequisites e ld w) =
     (case first_declined e (unaccepted e) of None \<Rightarrow> Inr () | Some s \<Rightarrow> Inl Exception)
   \<and> (set (map summary_id (list_agreements e))
         \<subseteq> set (map accepted_agreement_id (list_accepted_agreements e))
       \<longrightarrow> check_prerequisites e ld w = (Inr (), w))
   \<and> (first_declined e (unaccepted e) = None
       \<longrightarrow> asked e (unaccepted e) = unaccepted e
           \<and> confirmed_prefix e (unaccepted e) = unaccepted e)"
proof (intro conjI impI)
  show "confirmations (trace (snd (check_prerequisites e ld w))) =
     confirmations (trace w) @ map summary_id (asked e (unaccepted e))"
    by (simp add: check_prerequisites_def unaccepted_def agreements_loop_confirmations
          del: set_map)
  show "recordings (trace (snd (check_prerequisites e ld w))) =
     recordings (trace w) @ map summary_id (confirmed_prefix e (unaccepted e))"
    by (simp add: check_prerequisites_def unaccepted_def agreements_loop_recordings
          del: set_map)
  show "fst (check_prerequisites e ld w) =
     (case first_declined e (unaccepted e) of None \<Rightarrow> Inr () | Some s \<Rightarrow> Inl Exception)"
    by (simp add: check_prerequisites_def unaccepted_def agreements_loop_result
          del: set_map)
  show "check_prerequisites e ld w = (Inr (), w)"
    if "set (map summary_id (list_agreements e))
         \<subseteq> set (map accepted_agreement_id (list_accepted_agreements e))"
    using agreements_loop_covered [OF that] by (simp add: check_prerequisites_def)
  assume none: "first_declined e (unaccepted e) = None"
  then have all: "\<forall>s\<in>set (unaccepted e). click_confirm e (summary_id s)"
    by (auto simp: first_declined_def find_None_iff)
  then show p: "confirmed_prefix e (unaccepted e) = unaccepted e"
    by (simp add: confirmed_prefix_def)
  from none p show "asked e (unaccepted e) = unaccepted e"
    by (simp add: asked_def)
qed

theorem agreement_gate_interactions_witness:
  "check_prerequisites covered_env demo_listing world0 = (Inr (), world0)
   \<and> confirmations (trace (snd (check_prerequisites agreements_env demo_listing world0))) = [''a2'', ''a3'']
   \<and> recordings (trace (snd (check_prerequisites agreements_env demo_listing world0))) = [''a2'']
   \<and> fst (check_prerequisites agreements_env demo_listing world0) = Inl Exception"
proof -
  have cov: "set (map summary_id (list_agreements covered_env))
         \<subseteq> set (map accepted_agreement_id (list_accepted_agreements covered_env))"
    by code_simp
  have a: "asked agreements_env (unaccepted agreements_env) =
      [\<lparr>summary_id = ''a2'', author = ''vendor''\<rparr>, \<lparr>summary_id = ''a3'', author = ''vendor''\<rparr>]"
    by code_simp
  have c: "confirmed_prefix agreements_env (unaccepted agreements_env) =
      [\<lparr>summary_id = ''a2'', author = ''vendor''\<rparr>]"
    by code_simp
  have d: "first_declined agreements_env (unaccepted agreements_env) =
      Some \<lparr>summary_id = ''a3'', author = ''vendor''\<rparr>"
    by code_simp
  have t: "trace world0 = []"
    by (simp add: world0_def)
  show ?thesis
    using agreement_gate_interactions [of covered_env demo_listing world0]
      agreement_gate_interactions [of agreements_env demo_listing world0] cov
    by (simp add: a c d t)
qed

text \<open>
  Claim C8, as stated, fails: the error of a declined agreement is the bare
  \<^verbatim>\<open>Exception\<close> of \<^verbatim>\<open>raise Exception\<close>, not an error type of its own. The source
  defines no \<^verbatim>\<open>AgreementRejected\<close>.
\<close>

theorem rejection_is_generic:
  "fst (check_prerequisites agreements_env demo_listing world0) = Inl Exception
   \<and> \<not> is_distinguished_error Exception"
  by code_simp

text \<open>
  Claim C8, amended. Whenever a required, unaccepted agreement is declined at the
  confirmation, the gate fails by raising a bare \<^verbatim>\<open>Exception\<close>, at once and with no
  retry: the confirmation of the declined agreement is the last thing the gate does,
  that agreement is asked about once, and no recording call is issued for it.
\<close>

theorem rejection_raises_bare_exception_once:
  assumes "first_declined e (unaccepted e) = Some s"
  shows "fst (check_prerequisites e ld w) = Inl Exception
    \<and> last (trace (snd (check_prerequisites e ld w))) = Confirm (summary_id s)
    \<and> count_list (confirmations (trace (snd (check_prerequisites e ld w)))) (summary_id s)
        = count_list (confirmations (trace w)) (summary_id s) + 1
    \<and> count_list (recordings (trace (snd (check_prerequisites e ld w)))) (summary_id s)
        = count_list (recordings (trace w)) (summary_id s)"
proof (intro conjI)
  let ?acc = "map accepted_agreement_id (list_accepted_agreements e)"
  have u: "filter (\<lambda>s. summary_id s \<notin> set ?acc) (list_agreements e) = unaccepted e"
    by (simp add: unaccepted_def)
  show "fst (check_prerequisites e ld w) = Inl Exception"
    using assms agreements_loop_result [of e ld ?acc "list_agreements e" w]
    by (simp add: check_prerequisites_def u del: set_map)
  show "last (trace (snd (check_prerequisites e ld w))) = Confirm (summary_id s)"
    using assms agreements_loop_last [of e ?acc "list_agreements e" s ld w]
    by (simp add: check_prerequisites_def u del: set_map)
  show "count_list (confirmations (trace (snd (check_prerequisites e ld w)))) (summary_id s)
        = count_list (confirmations (trace w)) (summary_id s) + 1"
    using assms count_confirmed_prefix [OF assms]
      agreements_loop_confirmations [of e ld ?acc "list_agreements e" w]
    by (simp add: check_prerequisites_def u asked_def del: set_map)
  show "count_list (recordings (trace (snd (check_prerequisites e ld w)))) (summary_id s)
        = count_list (recordings (trace w)) (summary_id s)"
    using count_confirmed_prefix [OF assms]
      agreements_loop_recordings [of e ld ?acc "list_agreements e" w]
    by (simp add: check_prerequisites_def u del: set_map)
qed

theorem rejection_raises_bare_exception_once_witness:
  "first_declined declining_env (unaccepted declining_env)
     = Some \<lparr>summary_id = ''a1'', author = ''vendor''\<rparr>
   \<and> fst (check_prerequisites declining_env demo_listing world0) = Inl Exception
   \<and> last (trace (snd (check_prerequisites declining_env demo_listing world0))) = Confirm ''a1''
   \<and> count_list (confirmations (trace (snd (check_prerequisites declining_env demo_listing world0)))) ''a1'' = 1
   \<and> count_list (recordings (trace (snd (check_prerequisites declining_env demo_listing world0)))) ''a1'' = 0"
proof -
  have d: "first_declined declining_env (unaccepted declining_env)
     = Some \<lparr>summary_id = ''a1'', author = ''vendor''\<rparr>"
    by code_simp
  have t: "trace world0 = []"
    by (simp add: world0_def)
  show ?thesis
    using rejection_raises_bare_exception_once [OF d, of demo_listing world0] d
    by (simp add: t)
qed

section \<open>Properties of the orchestrator\<close>

text \<open>
  Claim C1 says that no install or upgrade command is executed before the agreement
  gate has resolved, and that a declined agreement fails the run with no install
  invocation. In the source the call of \<^verbatim>\<open>check_prerequisites\<close> in \<^verbatim>\<open>_run_with_python\<close>
  is commented out. With one required agreement that is not accepted and a user who
  would decline it, the gate on its own raises, but the run never asks: it spawns the
  install command once and returns 0.
\<close>

theorem run_installs_without_agreement_gate:
  "fst (check_prerequisites declining_env demo_listing world0) = Inl Exception
   \<and> map_option fst (run_with_python declining_env world0) = Some (Inr (Some 0))
   \<and> map_option (install_calls \<circ> snd) (run_with_python declining_env world0) = Some 1
   \<and> map_option (confirmations \<circ> trace \<circ> snd) (run_with_python declining_env world0) = Some []"
  by code_simp

text \<open>
  Claim C4 says that the override-values file is removed on every exit path. The
  source removes it after \<^verbatim>\<open>_run_helm_install\<close> has returned, not in a \<^verbatim>\<open>finally\<close>
  block. When the listing command exits 1, \<^verbatim>\<open>_run_helm_list\<close> returns \<^verbatim>\<open>None\<close>, the
  probe raises \<^verbatim>\<open>TypeError\<close> on \<^verbatim>\<open>helm_list['NAME']\<close>, the run ends with that exception
  and the file is still there.
\<close>

theorem artifact_left_behind:
  "map_option fst (run_with_python list_fails_env world0) = Some (Inl TypeError)
   \<and> map_option (files \<circ> snd) (run_with_python list_fails_env world0)
       = Some {''/tmp/tmpabc/values.yaml''}"
  by code_simp

text \<open>
  Claim C5. When the install or upgrade command of a run exits with a non-zero code,
  the run returns \<open>-1\<close>, no fetch call is made (the poller is never invoked) and no
  time passes in a sleep.
\<close>

theorem nonzero_install_exit_skips_poller:
  assumes "get_listing_details e = Helm d"
    and "run_helm_install e (helm_app_name d) chart_ref
           [(''version'', ''1.0.0''), (''namespace'', namespace d),
            (''values'', temporary_directory e @ ''/values.yaml'')]
           (snd (save_helm_value_to_yaml e (helm_values d) w)) = (Inr status, w2)"
    and "returncode status \<noteq> 0"
  shows "\<exists>w'. run_with_python e w = Some (Inr (Some (- 1)), w')
           \<and> fetch_calls w' = fetch_calls w \<and> clock w' = clock w"
proof -
  let ?p = "temporary_directory e @ ''/values.yaml''"
  obtain p w1 where sv: "save_helm_value_to_yaml e (helm_values d) w = (p, w1)"
    by (cases "save_helm_value_to_yaml e (helm_values d) w")
  with save_helm_value_to_yaml_quiet [of e "helm_values d" w]
  have p: "p = ?p" and w1: "fetch_calls w1 = fetch_calls w" "clock w1 = clock w"
    by simp_all
  from assms(2) sv p
  have i: "run_helm_install e (helm_app_name d) chart_ref
      [(''version'', ''1.0.0''), (''namespace'', namespace d), (''values'', p)] w1
      = (Inr status, w2)"
    by simp
  with run_helm_install_quiet [of e "helm_app_name d" chart_ref
        "[(''version'', ''1.0.0''), (''namespace'', namespace d), (''values'', p)]" w1]
  have w2: "fetch_calls w2 = fetch_calls w1" "clock w2 = clock w1"
    by simp_all
  have r: "run_with_python e w = Some (Inr (Some (- 1)), snd (delete_temp_file p w2))"
    using assms(3) by (simp add: run_with_python_def assms(1) sv i case_prod_beta)
  show ?thesis
    using r w1 w2 delete_temp_file_quiet [of p w2] by simp
qed

theorem nonzero_install_exit_skips_poller_witness:
  "map_option fst (run_with_python install_fails_env world0) = Some (Inr (Some (- 1)))
   \<and> map_option (fetch_calls \<circ> snd) (run_with_python install_fails_env world0) = Some 0"
proof -
  let ?st = "\<lparr>returncode = 1, stdout = ''''\<rparr>"
  have g: "get_listing_details install_fails_env = Helm demo_listing"
    by (simp add: install_fails_env_def demo_env_def)
  let ?w2 = "\<lparr>trace = [WriteFile ''/tmp/tmpabc/values.yaml'',
      Spawn [''helm'', ''list'', ''--namespace'', ''ns1''],
      Spawn [''helm'', ''install'', ''demo'', chart_ref, ''--version'', ''1.0.0'',
             ''--namespace'', ''ns1'', ''--values'', ''/tmp/tmpabc/values.yaml'']],
      files = {''/tmp/tmpabc/values.yaml''}, clock = 0\<rparr>"
  have i: "run_helm_install install_fails_env (helm_app_name demo_listing) chart_ref
           [(''version'', ''1.0.0''), (''namespace'', namespace demo_listing),
            (''values'', temporary_directory install_fails_env @ ''/values.yaml'')]
           (snd (save_helm_value_to_yaml install_fails_env (helm_values demo_listing) world0))
         = (Inr ?st, ?w2)"
    by code_simp
  have n: "returncode ?st \<noteq> 0"
    by simp
  have f: "fetch_calls world0 = 0"
    by code_simp
  from nonzero_install_exit_skips_poller [OF g i n] f show ?thesis
    by auto
qed

text \<open>
  Claim C10. \<^verbatim>\<open>run\<close> returns normally if and only if the runtime type is the
  supported one and \<^verbatim>\<open>_run_with_python\<close> returns exactly 0. Any other returned value
  makes it raise \<^verbatim>\<open>RuntimeError\<close>; in particular the \<^verbatim>\<open>None\<close> that a listing which is
  not a Helm listing produces, before anything has been done.
\<close>

theorem run_returns_iff_exit_code_zero:
  "((\<exists>w'. run e runtime_config w = Some (Inr (), w')) \<longleftrightarrow>
      (case runtime_config ''type'' of None \<Rightarrow> default_runtime_type e | Some t \<Rightarrow> t)
         = python_runtime_type e
      \<and> (\<exists>w'. run_with_python e w = Some (Inr (Some 0), w')))
   \<and> ((case runtime_config ''type'' of None \<Rightarrow> default_runtime_type e | Some t \<Rightarrow> t)
         = python_runtime_type e
       \<longrightarrow> run_with_python e w = Some (Inr exit_code, w') \<longrightarrow> exit_code \<noteq> Some 0
       \<longrightarrow> run e runtime_config w = Some (Inl RuntimeError, w'))
   \<and> ((case runtime_config ''type'' of None \<Rightarrow> default_runtime_type e | Some t \<Rightarrow> t)
         = python_runtime_type e
       \<longrightarrow> get_listing_details e = Plain d
       \<longrightarrow> run e runtime_config w = Some (Inl RuntimeError, w))"
  by (auto simp: run_def RUNTIME_RUN_MAP_def Let_def run_with_python_def
           split: option.splits sum.splits prod.splits if_splits)

theorem run_returns_iff_exit_code_zero_witness:
  "run plain_env Map.empty world0 = Some (Inl RuntimeError, world0)
   \<and> (\<exists>w'. run demo_env Map.empty world0 = Some (Inr (), w'))
   \<and> map_option fst (run install_fails_env Map.empty world0) = Some (Inl RuntimeError)"
proof -
  have t: "(case Map.empty ''type'' of None \<Rightarrow> default_runtime_type plain_env | Some t \<Rightarrow> t)
      = python_runtime_type plain_env"
    by (simp add: plain_env_def demo_env_def)
  have t2: "(case Map.empty ''type'' of None \<Rightarrow> default_runtime_type demo_env | Some t \<Rightarrow> t)
      = python_runtime_type demo_env"
    by (simp add: demo_env_def)
  have t3: "(case Map.empty ''type'' of None \<Rightarrow> default_runtime_type install_fails_env | Some t \<Rightarrow> t)
      = python_runtime_type install_fails_env"
    by (simp add: install_fails_env_def demo_env_def)
  have p: "get_listing_details plain_env
      = Plain \<lparr>compartment_id = ''c1'', version = ''1.0.0'', listing_id = ''l1''\<rparr>"
    by (simp add: plain_env_def)
  let ?w4 = "\<lparr>trace = [WriteFile ''/tmp/tmpabc/values.yaml'',
      Spawn [''helm'', ''list'', ''--namespace'', ''ns1''],
      Spawn [''helm'', ''install'', ''demo'', chart_ref, ''--version'', ''1.0.0'',
             ''--namespace'', ''ns1'', ''--values'', ''/tmp/tmpabc/values.yaml''],
      RemoveFile ''/tmp/tmpabc/values.yaml'',
      Fetch ''ns1'' ''app.kubernetes.io/instance=demo''],
      files = {}, clock = 0\<rparr>"
  have "run_with_python demo_env world0 = Some (Inr (Some 0), ?w4)"
    by code_simp
  then have ok: "\<exists>w'. run_with_python demo_env world0 = Some (Inr (Some 0), w')"
    by blast
  let ?w3 = "\<lparr>trace = [WriteFile ''/tmp/tmpabc/values.yaml'',
      Spawn [''helm'', ''list'', ''--namespace'', ''ns1''],
      Spawn [''helm'', ''install'', ''demo'', chart_ref, ''--version'', ''1.0.0'',
             ''--namespace'', ''ns1'', ''--values'', ''/tmp/tmpabc/values.yaml''],
      RemoveFile ''/tmp/tmpabc/values.yaml''],
      files = {}, clock = 0\<rparr>"
  have bad: "run_with_python install_fails_env world0 = Some (Inr (Some (- 1)), ?w3)"
    by code_simp
  have ne: "Some (- 1) \<noteq> Some (0::int)"
    by simp
  from run_returns_iff_exit_code_zero [of plain_env Map.empty world0] t p
  have a: "run plain_env Map.empty world0 = Some (Inl RuntimeError, world0)"
    by blast
  from run_returns_iff_exit_code_zero [of demo_env Map.empty world0] t2 ok
  have b: "\<exists>w'. run demo_env Map.empty world0 = Some (Inr (), w')"
    by blast
  from run_returns_iff_exit_code_zero [of install_fails_env Map.empty world0 "Some (- 1)" ?w3] t3 bad ne
  have c: "run install_fails_env Map.empty world0 = Some (Inl RuntimeError, ?w3)"
    by blast
  from a b c show ?thesis by simp
qed

end
